theory Spec2Isabelle
  imports Complex_Main
begin

section \<open>The host page and the animation library, as the components use them\<close>

text \<open>
  The two components of \<^verbatim>\<open>src/App.tsx\<close> (\<^verbatim>\<open>TargetCursor\<close> and the phone
  mockup of \<^verbatim>\<open>App\<close>) act on the host page only through
  \<^verbatim>\<open>document.body.style.cursor\<close>, the window's listener list, the viewport size and
  calls of the animation library. The page is a record that the effects pass along.
  A JavaScript \<^verbatim>\<open>number\<close> is a real here; no claim depends on rounding.
\<close>

type_synonym node = nat

datatype propval = Num real | Rel real

type_synonym vars = "(string \<times> propval) list"

datatype ease = ease_none | power3_out | ease_default

record tween =
  target :: node
  vars :: vars
  duration :: real
  ease :: ease

record timeline =
  repeat :: int
  children :: "tween list"
  killed :: bool

datatype event_type = mousemove | mousedown | mouseup

text \<open>
  The three handlers are closures created by one run of the effect; the number is the
  identity of that run, since \<^verbatim>\<open>removeEventListener\<close> compares function identity.
\<close>

datatype handler = moveHandler nat | mouseDownHandler nat | mouseUpHandler nat

record MouseEvent =
  etype :: event_type
  clientX :: real
  clientY :: real

record world =
  body_cursor :: string
  cursor_writes :: "string list"
  innerWidth :: real
  innerHeight :: real
  listeners :: "(event_type \<times> handler) list"
  gsap_sets :: "(node \<times> vars) list"
  gsap_tweens :: "tween list"
  timelines :: "timeline list"
  closures :: nat
  cursorRef :: "node option"
  dotRef :: "node option"
  spinTl :: "nat option"

text \<open>
  \<^verbatim>\<open>document.body.style.cursor = v\<close>; every assignment is also logged, so that a claim
  about which writes happen can be stated.
\<close>

definition set_body_cursor :: "string \<Rightarrow> world \<Rightarrow> world" where
  "set_body_cursor v w = w\<lparr>body_cursor := v, cursor_writes := cursor_writes w @ [v]\<rparr>"

definition addEventListener :: "event_type \<Rightarrow> handler \<Rightarrow> world \<Rightarrow> world" where
  "addEventListener ty h w =
     (if (ty, h) \<in> set (listeners w) then w
      else w\<lparr>listeners := listeners w @ [(ty, h)]\<rparr>)"

definition removeEventListener :: "event_type \<Rightarrow> handler \<Rightarrow> world \<Rightarrow> world" where
  "removeEventListener ty h w = w\<lparr>listeners := removeAll (ty, h) (listeners w)\<rparr>"

definition gsap_set :: "node \<Rightarrow> vars \<Rightarrow> world \<Rightarrow> world" where
  "gsap_set n vs w = w\<lparr>gsap_sets := gsap_sets w @ [(n, vs)]\<rparr>"

definition gsap_to :: "node \<Rightarrow> vars \<Rightarrow> real \<Rightarrow> ease \<Rightarrow> world \<Rightarrow> world" where
  "gsap_to n vs d e w =
     w\<lparr>gsap_tweens := gsap_tweens w @ [\<lparr>target = n, vars = vs, duration = d, ease = e\<rparr>]\<rparr>"

text \<open>
  \<^verbatim>\<open>gsap.timeline({ repeat: r }).to(n, { ..., duration: d, ease: e })\<close>: a new timeline
  object, returned by its index in the page's store of timelines.
\<close>

definition gsap_timeline_to ::
  "int \<Rightarrow> node \<Rightarrow> vars \<Rightarrow> real \<Rightarrow> ease \<Rightarrow> world \<Rightarrow> nat \<times> world" where
  "gsap_timeline_to r n vs d e w =
     (length (timelines w),
      w\<lparr>timelines := timelines w @
          [\<lparr>repeat = r,
            children = [\<lparr>target = n, vars = vs, duration = d, ease = e\<rparr>],
            killed = False\<rparr>]\<rparr>)"

definition kill :: "nat \<Rightarrow> world \<Rightarrow> world" where
  "kill i w =
     (if i < length (timelines w)
      then w\<lparr>timelines := (timelines w)[i := (timelines w ! i)\<lparr>killed := True\<rparr>]\<rparr>
      else w)"

text \<open>The indices of the timelines that have not been killed.\<close>

definition alive :: "world \<Rightarrow> nat list" where
  "alive w = filter (\<lambda>i. \<not> killed (timelines w ! i)) [0..<length (timelines w)]"

section \<open>The cursor controller: \<^verbatim>\<open>TargetCursor\<close> of \<^verbatim>\<open>src/App.tsx\<close>\<close>

definition moveCursor :: "real \<Rightarrow> real \<Rightarrow> world \<Rightarrow> world" where
  "moveCursor x y w =
     (case cursorRef w of
        None \<Rightarrow> w
      | Some c \<Rightarrow> gsap_to c [(''x'', Num x), (''y'', Num y)] (1 / 10) power3_out w)"

definition mouseDown_body :: "world \<Rightarrow> world" where
  "mouseDown_body w =
     (case (dotRef w, cursorRef w) of
        (Some d, Some c) \<Rightarrow>
          gsap_to c [(''scale'', Num (95 / 100))] (15 / 100) ease_default
            (gsap_to d [(''scale'', Num (8 / 10))] (15 / 100) ease_default w)
      | _ \<Rightarrow> w)"

definition mouseUp_body :: "world \<Rightarrow> world" where
  "mouseUp_body w =
     (case (dotRef w, cursorRef w) of
        (Some d, Some c) \<Rightarrow>
          gsap_to c [(''scale'', Num 1)] (15 / 100) ease_default
            (gsap_to d [(''scale'', Num 1)] (15 / 100) ease_default w)
      | _ \<Rightarrow> w)"

fun run_handler :: "handler \<Rightarrow> MouseEvent \<Rightarrow> world \<Rightarrow> world" where
  "run_handler (moveHandler k) e w = moveCursor (clientX e) (clientY e) w"
| "run_handler (mouseDownHandler k) e w = mouseDown_body w"
| "run_handler (mouseUpHandler k) e w = mouseUp_body w"

text \<open>
  The window delivers an event to the listeners registered for its type, in the order of
  registration, over the list as it stands when the dispatch begins.
\<close>

definition dispatch :: "MouseEvent \<Rightarrow> world \<Rightarrow> world" where
  "dispatch e w =
     foldl (\<lambda>v (ty, h). if ty = etype e then run_handler h e v else v) w (listeners w)"

text \<open>
  The function an effect returns. \<^verbatim>\<open>() => void 0\<close> is \<open>cleanup_noop\<close>; the closure at
  the end of the effect of \<^verbatim>\<open>src/App.tsx\<close> is \<open>cleanup_full\<close>, which has captured
  \<^verbatim>\<open>originalCursor\<close> and the three handlers; \<open>cleanup_move_only\<close> is the closure of the
  second, shorter \<^verbatim>\<open>TargetCursor\<close> (file \<^verbatim>\<open>part_000\<close>), which has one handler.
\<close>

datatype cleanup =
    cleanup_noop
  | cleanup_full string nat
  | cleanup_move_only string nat

definition kill_current :: "world \<Rightarrow> world" where
  "kill_current w = (case spinTl w of None \<Rightarrow> w | Some i \<Rightarrow> kill i w)"

fun run_cleanup :: "cleanup \<Rightarrow> world \<Rightarrow> world" where
  "run_cleanup cleanup_noop w = w"
| "run_cleanup (cleanup_full originalCursor k) w =
     set_body_cursor originalCursor
       (kill_current
         (removeEventListener mouseup (mouseUpHandler k)
           (removeEventListener mousedown (mouseDownHandler k)
             (removeEventListener mousemove (moveHandler k) w))))"
| "run_cleanup (cleanup_move_only originalCursor k) w =
     set_body_cursor originalCursor
       (kill_current
         (removeEventListener mousemove (moveHandler k) w))"

text \<open>The body of the \<^verbatim>\<open>useEffect\<close> callback of \<^verbatim>\<open>TargetCursor\<close>, lines 24 to 59.\<close>

definition spin_vars :: vars where
  "spin_vars = [(''rotation'', Rel 360)]"

definition center_vars :: "world \<Rightarrow> vars" where
  "center_vars w =
     [(''xPercent'', Num (- 50)), (''yPercent'', Num (- 50)),
      (''x'', Num (innerWidth w / 2)), (''y'', Num (innerHeight w / 2))]"

text \<open>
  Lines 34 and 35: kill the timeline \<^verbatim>\<open>spinTl.current\<close> refers to, if any, then create
  the new one and store it in \<^verbatim>\<open>spinTl.current\<close>.
\<close>

definition start_spin :: "node \<Rightarrow> real \<Rightarrow> world \<Rightarrow> world" where
  "start_spin cursor spinDuration w =
     (let (i, w') = gsap_timeline_to (- 1) cursor spin_vars spinDuration ease_none
                      (kill_current w)
      in w'\<lparr>spinTl := Some i\<rparr>)"

definition useEffect_TargetCursor :: "real \<Rightarrow> bool \<Rightarrow> world \<Rightarrow> cleanup \<times> world" where
  "useEffect_TargetCursor spinDuration hideDefaultCursor w =
     (let originalCursor = body_cursor w;
          w1 = (if hideDefaultCursor then set_body_cursor ''none'' w else w)
      in case cursorRef w1 of
           None \<Rightarrow> (cleanup_noop, w1)
         | Some cursor \<Rightarrow>
             (let w2 = gsap_set cursor (center_vars w1) w1;
                  w3 = start_spin cursor spinDuration w2;
                  k = closures w3;
                  w4 = w3\<lparr>closures := Suc k\<rparr>;
                  w5 = addEventListener mousemove (moveHandler k) w4;
                  w6 = addEventListener mousedown (mouseDownHandler k) w5;
                  w7 = addEventListener mouseup (mouseUpHandler k) w6
              in (cleanup_full originalCursor k, w7)))"

text \<open>The same callback in \<^verbatim>\<open>part_000\<close>, lines 14 to 29: no press or release handler.\<close>

definition useEffect_TargetCursor_part000 ::
  "real \<Rightarrow> bool \<Rightarrow> world \<Rightarrow> cleanup \<times> world" where
  "useEffect_TargetCursor_part000 spinDuration hideDefaultCursor w =
     (let originalCursor = body_cursor w;
          w1 = (if hideDefaultCursor then set_body_cursor ''none'' w else w)
      in case cursorRef w1 of
           None \<Rightarrow> (cleanup_noop, w1)
         | Some cursor \<Rightarrow>
             (let w2 = gsap_set cursor (center_vars w1) w1;
                  w3 = start_spin cursor spinDuration w2;
                  k = closures w3;
                  w4 = w3\<lparr>closures := Suc k\<rparr>;
                  w5 = addEventListener mousemove (moveHandler k) w4
              in (cleanup_move_only originalCursor k, w5)))"

section \<open>The lifecycle the framework gives the effect\<close>

text \<open>
  React runs the effect after the component has mounted, runs the function it returned
  before the effect runs again (which happens only when one of the dependencies
  \<^verbatim>\<open>[hideDefaultCursor, moveCursor, spinDuration]\<close> has changed; \<^verbatim>\<open>moveCursor\<close> is a
  \<^verbatim>\<open>useCallback\<close> with no dependency and never changes) and runs it at unmount.
  A new instance starts with \<^verbatim>\<open>spinTl = useRef(null)\<close>. The two element references
  hold what the host has attached when the code reads them.
\<close>

type_synonym effect = "real \<Rightarrow> bool \<Rightarrow> world \<Rightarrow> cleanup \<times> world"

record mounted =
  page :: world
  pending :: cleanup
  deps :: "real \<times> bool"

definition mount_cursor :: "effect \<Rightarrow> real \<Rightarrow> bool \<Rightarrow> world \<Rightarrow> mounted" where
  "mount_cursor eff spinDuration hideDefaultCursor w =
     (let (c, w') = eff spinDuration hideDefaultCursor (w\<lparr>spinTl := None\<rparr>)
      in \<lparr>page = w', pending = c, deps = (spinDuration, hideDefaultCursor)\<rparr>)"

definition rerender_cursor :: "effect \<Rightarrow> real \<Rightarrow> bool \<Rightarrow> mounted \<Rightarrow> mounted" where
  "rerender_cursor eff spinDuration hideDefaultCursor m =
     (if deps m = (spinDuration, hideDefaultCursor) then m
      else (let (c, w') = eff spinDuration hideDefaultCursor
                            (run_cleanup (pending m) (page m))
            in \<lparr>page = w', pending = c, deps = (spinDuration, hideDefaultCursor)\<rparr>))"

definition unmount_cursor :: "mounted \<Rightarrow> world" where
  "unmount_cursor m = run_cleanup (pending m) (page m)"

datatype lifecycle = Unmounted world | Mounted mounted

text \<open>
  What can happen to the controller: it is mounted with its two properties, rendered again
  with two properties, unmounted; the window delivers a pointer event; the host attaches
  or detaches the two elements.
\<close>

datatype lc_event =
    Mount real bool
  | Render real bool
  | Unmount
  | Pointer MouseEvent
  | Attach "node option" "node option"

fun page_of :: "lifecycle \<Rightarrow> world" where
  "page_of (Unmounted w) = w"
| "page_of (Mounted m) = page m"

definition attach :: "node option \<Rightarrow> node option \<Rightarrow> world \<Rightarrow> world" where
  "attach c d w = w\<lparr>cursorRef := c, dotRef := d\<rparr>"

text \<open>An event that cannot happen in the current state (a second mount, say) changes nothing.\<close>

fun lc_step :: "effect \<Rightarrow> lifecycle \<Rightarrow> lc_event \<Rightarrow> lifecycle" where
  "lc_step eff (Unmounted w) (Mount d h) = Mounted (mount_cursor eff d h w)"
| "lc_step eff (Mounted m) (Render d h) = Mounted (rerender_cursor eff d h m)"
| "lc_step eff (Mounted m) Unmount = Unmounted (unmount_cursor m)"
| "lc_step eff (Unmounted w) (Pointer e) = Unmounted (dispatch e w)"
| "lc_step eff (Mounted m) (Pointer e) = Mounted (m\<lparr>page := dispatch e (page m)\<rparr>)"
| "lc_step eff (Unmounted w) (Attach c d) = Unmounted (attach c d w)"
| "lc_step eff (Mounted m) (Attach c d) = Mounted (m\<lparr>page := attach c d (page m)\<rparr>)"
| "lc_step eff (Unmounted w) (Render d h) = Unmounted w"
| "lc_step eff (Unmounted w) Unmount = Unmounted w"
| "lc_step eff (Mounted m) (Mount d h) = Mounted m"

definition lc_run :: "effect \<Rightarrow> lifecycle \<Rightarrow> lc_event list \<Rightarrow> lifecycle" where
  "lc_run eff s evs = foldl (lc_step eff) s evs"

text \<open>A page on which nothing has run yet, with both elements attached.\<close>

definition page0 :: world where
  "page0 = \<lparr>body_cursor = ''pointer'', cursor_writes = [], innerWidth = 1280,
            innerHeight = 720, listeners = [], gsap_sets = [], gsap_tweens = [],
            timelines = [], closures = 0, cursorRef = Some 0, dotRef = Some 1,
            spinTl = None\<rparr>"

definition press :: MouseEvent where
  "press = \<lparr>etype = mousedown, clientX = 10, clientY = 20\<rparr>"

definition release :: MouseEvent where
  "release = \<lparr>etype = mouseup, clientX = 10, clientY = 20\<rparr>"

section \<open>The mockup navigator\<close>

datatype ScreenName = Home | Shop | Save | Invest

text \<open>
  Of the rendered tree, the elements that carry a \<^verbatim>\<open>data-testid\<close> or a click handler
  are kept; the label is the \<^verbatim>\<open>data-testid\<close> (in \<^verbatim>\<open>part_000\<close>, which has none, a
  name taken from the text of the element). A click handler is the state change it
  performs.
\<close>

datatype 'a element = Element (label: string) (onClick: "'a option") (kids: "'a element list")

fun labels :: "'a element \<Rightarrow> string list" where
  "labels (Element l c ks) = l # concat (map labels ks)"

fun clickables :: "'a element \<Rightarrow> 'a list" where
  "clickables (Element l c ks) =
     (case c of None \<Rightarrow> [] | Some a \<Rightarrow> [a]) @ concat (map clickables ks)"

definition present :: "string \<Rightarrow> 'a element \<Rightarrow> bool" where
  "present l e = (l \<in> set (labels e))"

text \<open>
  \<^verbatim>\<open>document.querySelector('[data-testid="l"]')\<close>: the first element with that label in
  document order, or \<^verbatim>\<open>null\<close>.
\<close>

fun querySelector :: "string \<Rightarrow> 'a element \<Rightarrow> 'a element option"
  and querySelector_list :: "string \<Rightarrow> 'a element list \<Rightarrow> 'a element option" where
  "querySelector l (Element l' c ks) =
     (if l' = l then Some (Element l' c ks) else querySelector_list l ks)"
| "querySelector_list l [] = None"
| "querySelector_list l (k # ks) =
     (case querySelector l k of Some e \<Rightarrow> Some e | None \<Rightarrow> querySelector_list l ks)"

text \<open>\<^verbatim>\<open>el?.click()\<close>: nothing for \<^verbatim>\<open>null\<close>, else the click handler of the element, if any.\<close>

definition click :: "('s \<Rightarrow> 's) element option \<Rightarrow> 's \<Rightarrow> 's" where
  "click el a =
     (case el of None \<Rightarrow> a
      | Some e \<Rightarrow> (case onClick e of None \<Rightarrow> a | Some f \<Rightarrow> f a))"

text \<open>\<^verbatim>\<open>console.assert(cond, msg)\<close> logs the message when the condition is false.\<close>

definition console_assert :: "bool \<Rightarrow> string \<Rightarrow> string list" where
  "console_assert cond msg = (if cond then [] else [msg])"

definition HomeScreen :: "(ScreenName \<Rightarrow> 'a) \<Rightarrow> 'a element" where
  "HomeScreen onNav =
     Element ''screen-home'' None
       [Element ''nav-shop'' (Some (onNav Shop)) [],
        Element ''nav-save'' (Some (onNav Save)) [],
        Element ''nav-invest'' (Some (onNav Invest)) []]"

definition ShopScreen :: "'a \<Rightarrow> 'a element" where
  "ShopScreen onBack =
     Element ''screen-shop'' None [Element ''back-btn'' (Some onBack) []]"

definition SaveScreen :: "'a \<Rightarrow> 'a element" where
  "SaveScreen onBack =
     Element ''screen-save'' None [Element ''back-btn'' (Some onBack) []]"

definition InvestScreen :: "'a \<Rightarrow> 'a element" where
  "InvestScreen onBack =
     Element ''screen-invest'' None [Element ''back-btn'' (Some onBack) []]"

text \<open>\<^verbatim>\<open>{cond && <X />}\<close> renders \<^verbatim>\<open>X\<close> when the condition holds and nothing otherwise.\<close>

definition PhoneMockup :: "ScreenName \<Rightarrow> (ScreenName \<Rightarrow> 'a) \<Rightarrow> 'a element" where
  "PhoneMockup screen setScreen =
     Element ''phone'' None
       ((if screen = Home then [HomeScreen setScreen] else []) @
        (if screen = Shop then [ShopScreen (setScreen Home)] else []) @
        (if screen = Save then [SaveScreen (setScreen Home)] else []) @
        (if screen = Invest then [InvestScreen (setScreen Home)] else []))"

definition screen_testid :: "ScreenName \<Rightarrow> string" where
  "screen_testid s =
     (case s of Home \<Rightarrow> ''screen-home'' | Shop \<Rightarrow> ''screen-shop''
      | Save \<Rightarrow> ''screen-save'' | Invest \<Rightarrow> ''screen-invest'')"

text \<open>
  The state of \<^verbatim>\<open>App\<close>: the \<^verbatim>\<open>useState\<close> cell and the cursor controller it mounts with
  \<^verbatim>\<open>spinDuration={2} hideDefaultCursor={true}\<close>. Setting the cell renders \<^verbatim>\<open>App\<close>
  again, which hands the controller the same two properties.

  \<open>App_first_render\<close> is the state after the first render and the controller's effect,
  which runs before the effect of its parent.
\<close>

record app =
  screen :: ScreenName
  cursor :: mounted

definition App_first_render :: "world \<Rightarrow> app" where
  "App_first_render w =
     \<lparr>screen = Home, cursor = mount_cursor useEffect_TargetCursor 2 True w\<rparr>"

definition setScreen :: "ScreenName \<Rightarrow> app \<Rightarrow> app" where
  "setScreen t a =
     \<lparr>screen = t, cursor = rerender_cursor useEffect_TargetCursor 2 True (cursor a)\<rparr>"

definition App_unmount :: "app \<Rightarrow> world" where
  "App_unmount a = unmount_cursor (cursor a)"

definition App_view :: "app \<Rightarrow> (app \<Rightarrow> app) element" where
  "App_view a = PhoneMockup (screen a) setScreen"

text \<open>
  The mount effect of \<^verbatim>\<open>App\<close>, lines 175 to 190 (dependencies \<^verbatim>\<open>[]\<close>: it runs once
  per mount). A state change requested while the effect runs is rendered only after the
  effect has returned, so each \<^verbatim>\<open>querySelector\<close> of the effect searches the document of
  the render that preceded it. The result is the list of assertion messages logged and the
  state that the requests leave.
\<close>

definition App_mount_effect :: "app \<Rightarrow> string list \<times> app" where
  "App_mount_effect a =
     (let document = App_view a;
          log1 = console_assert (querySelector ''phone'' document \<noteq> None)
                   ''Phone mockup should render'';
          log2 = console_assert (querySelector ''screen-home'' document \<noteq> None)
                   ''Home screen should be visible on mount'';
          investBtn = querySelector ''nav-invest'' document;
          a1 = click investBtn a;
          sawInvest = (querySelector ''screen-invest'' document \<noteq> None);
          log3 = console_assert sawInvest
                   ''Invest screen should be shown after clicking nav-invest'';
          backBtn = querySelector ''back-btn'' document;
          a2 = click backBtn a1;
          log4 = console_assert (querySelector ''screen-home'' document \<noteq> None)
                   ''Home screen should be visible after going back''
      in (log1 @ log2 @ log3 @ log4, a2))"

text \<open>Mounting \<^verbatim>\<open>App\<close>: the first render, then the effects.\<close>

definition App_mount :: "world \<Rightarrow> app" where
  "App_mount w = snd (App_mount_effect (App_first_render w))"

text \<open>The screens that one click on a rendered control leads to, in document order.\<close>

definition nav_targets :: "app \<Rightarrow> ScreenName list" where
  "nav_targets a = map (\<lambda>f. screen (f a)) (clickables (App_view a))"

definition navigate_all :: "app \<Rightarrow> ScreenName list \<Rightarrow> app" where
  "navigate_all a ts = foldl (\<lambda>b t. setScreen t b) a ts"

text \<open>
  The \<^verbatim>\<open>App\<close> of \<^verbatim>\<open>part_000\<close>: four unlabelled screen blocks, of which the current
  one is rendered, and below them four buttons that are rendered on every screen.
\<close>

definition App_part000_mount :: "world \<Rightarrow> app" where
  "App_part000_mount w =
     \<lparr>screen = Home, cursor = mount_cursor useEffect_TargetCursor_part000 2 True w\<rparr>"

definition setScreen_part000 :: "ScreenName \<Rightarrow> app \<Rightarrow> app" where
  "setScreen_part000 t a =
     \<lparr>screen = t,
      cursor = rerender_cursor useEffect_TargetCursor_part000 2 True (cursor a)\<rparr>"

definition App_part000_view :: "app \<Rightarrow> (app \<Rightarrow> app) element" where
  "App_part000_view a =
     Element ''root'' None
       ((if screen a = Home then [Element ''Domovska obrazovka'' None []] else []) @
        (if screen a = Shop then [Element ''Shop view'' None []] else []) @
        (if screen a = Save then [Element ''Save view'' None []] else []) @
        (if screen a = Invest then [Element ''Invest view'' None []] else []) @
        [Element ''Home'' (Some (setScreen_part000 Home)) [],
         Element ''Shop'' (Some (setScreen_part000 Shop)) [],
         Element ''Save'' (Some (setScreen_part000 Save)) [],
         Element ''Invest'' (Some (setScreen_part000 Invest)) []])"

definition nav_targets_part000 :: "app \<Rightarrow> ScreenName list" where
  "nav_targets_part000 a = map (\<lambda>f. screen (f a)) (clickables (App_part000_view a))"

section \<open>Runs of events and the invariants of the lifecycle\<close>

definition dispatch_all :: "world \<Rightarrow> MouseEvent list \<Rightarrow> world" where
  "dispatch_all w es = foldl (\<lambda>v e. dispatch e v) w es"

text \<open>The timeline that one run of the effect creates for the element \<open>c\<close>.\<close>

definition spin_timeline :: "node \<Rightarrow> real \<Rightarrow> timeline" where
  "spin_timeline c d =
     \<lparr>repeat = - 1,
      children = [\<lparr>target = c, vars = [(''rotation'', Rel 360)], duration = d,
                  ease = ease_none\<rparr>],
      killed = False\<rparr>"

text \<open>No timeline runs except, at most, the one that \<^verbatim>\<open>spinTl.current\<close> refers to.\<close>

definition spin_ok :: "world \<Rightarrow> bool" where
  "spin_ok w = (alive w = [] \<or> map Some (alive w) = [spinTl w])"

fun spin_inv :: "lifecycle \<Rightarrow> bool" where
  "spin_inv (Unmounted w) = (alive w = [])"
| "spin_inv (Mounted m) =
     (if pending m = cleanup_noop then alive (page m) = [] else spin_ok (page m))"

text \<open>
  The window's listeners are those that the pending cleanup will remove; the effect of
  \<^verbatim>\<open>src/App.tsx\<close> never leaves the cleanup of the shorter variant pending.
\<close>

fun listeners_inv :: "lifecycle \<Rightarrow> bool" where
  "listeners_inv (Unmounted w) = (listeners w = [])"
| "listeners_inv (Mounted m) =
     (case pending m of
        cleanup_noop \<Rightarrow> listeners (page m) = []
      | cleanup_full originalCursor k \<Rightarrow>
          listeners (page m) =
            [(mousemove, moveHandler k), (mousedown, mouseDownHandler k),
             (mouseup, mouseUpHandler k)]
      | cleanup_move_only originalCursor k \<Rightarrow> False)"

section \<open>How each operation acts on the fields of the page\<close>

lemma set_body_cursor_fields [simp]:
  "body_cursor (set_body_cursor v w) = v"
  "cursor_writes (set_body_cursor v w) = cursor_writes w @ [v]"
  "listeners (set_body_cursor v w) = listeners w"
  "gsap_sets (set_body_cursor v w) = gsap_sets w"
  "gsap_tweens (set_body_cursor v w) = gsap_tweens w"
  "timelines (set_body_cursor v w) = timelines w"
  "closures (set_body_cursor v w) = closures w"
  "cursorRef (set_body_cursor v w) = cursorRef w"
  "dotRef (set_body_cursor v w) = dotRef w"
  "spinTl (set_body_cursor v w) = spinTl w"
  "innerWidth (set_body_cursor v w) = innerWidth w"
  "innerHeight (set_body_cursor v w) = innerHeight w"
  by (simp_all add: set_body_cursor_def)

lemma addEventListener_fields [simp]:
  "body_cursor (addEventListener ty h w) = body_cursor w"
  "cursor_writes (addEventListener ty h w) = cursor_writes w"
  "listeners (addEventListener ty h w) =
     (if (ty, h) \<in> set (listeners w) then listeners w else listeners w @ [(ty, h)])"
  "gsap_sets (addEventListener ty h w) = gsap_sets w"
  "gsap_tweens (addEventListener ty h w) = gsap_tweens w"
  "timelines (addEventListener ty h w) = timelines w"
  "closures (addEventListener ty h w) = closures w"
  "cursorRef (addEventListener ty h w) = cursorRef w"
  "dotRef (addEventListener ty h w) = dotRef w"
  "spinTl (addEventListener ty h w) = spinTl w"
  by (simp_all add: addEventListener_def)

lemma removeEventListener_fields [simp]:
  "body_cursor (removeEventListener ty h w) = body_cursor w"
  "cursor_writes (removeEventListener ty h w) = cursor_writes w"
  "listeners (removeEventListener ty h w) = removeAll (ty, h) (listeners w)"
  "gsap_sets (removeEventListener ty h w) = gsap_sets w"
  "gsap_tweens (removeEventListener ty h w) = gsap_tweens w"
  "timelines (removeEventListener ty h w) = timelines w"
  "closures (removeEventListener ty h w) = closures w"
  "cursorRef (removeEventListener ty h w) = cursorRef w"
  "dotRef (removeEventListener ty h w) = dotRef w"
  "spinTl (removeEventListener ty h w) = spinTl w"
  by (simp_all add: removeEventListener_def)

lemma gsap_set_fields [simp]:
  "body_cursor (gsap_set n vs w) = body_cursor w"
  "cursor_writes (gsap_set n vs w) = cursor_writes w"
  "listeners (gsap_set n vs w) = listeners w"
  "gsap_sets (gsap_set n vs w) = gsap_sets w @ [(n, vs)]"
  "gsap_tweens (gsap_set n vs w) = gsap_tweens w"
  "timelines (gsap_set n vs w) = timelines w"
  "closures (gsap_set n vs w) = closures w"
  "cursorRef (gsap_set n vs w) = cursorRef w"
  "dotRef (gsap_set n vs w) = dotRef w"
  "spinTl (gsap_set n vs w) = spinTl w"
  by (simp_all add: gsap_set_def)

lemma kill_fields [simp]:
  "body_cursor (kill i w) = body_cursor w"
  "cursor_writes (kill i w) = cursor_writes w"
  "listeners (kill i w) = listeners w"
  "gsap_sets (kill i w) = gsap_sets w"
  "gsap_tweens (kill i w) = gsap_tweens w"
  "closures (kill i w) = closures w"
  "cursorRef (kill i w) = cursorRef w"
  "dotRef (kill i w) = dotRef w"
  "spinTl (kill i w) = spinTl w"
  "length (timelines (kill i w)) = length (timelines w)"
  by (simp_all add: kill_def)

lemma kill_current_fields [simp]:
  "body_cursor (kill_current w) = body_cursor w"
  "cursor_writes (kill_current w) = cursor_writes w"
  "listeners (kill_current w) = listeners w"
  "gsap_sets (kill_current w) = gsap_sets w"
  "gsap_tweens (kill_current w) = gsap_tweens w"
  "closures (kill_current w) = closures w"
  "cursorRef (kill_current w) = cursorRef w"
  "dotRef (kill_current w) = dotRef w"
  "spinTl (kill_current w) = spinTl w"
  "length (timelines (kill_current w)) = length (timelines w)"
  by (simp_all add: kill_current_def split: option.splits)

lemma start_spin_fields [simp]:
  "body_cursor (start_spin c d w) = body_cursor w"
  "cursor_writes (start_spin c d w) = cursor_writes w"
  "listeners (start_spin c d w) = listeners w"
  "gsap_sets (start_spin c d w) = gsap_sets w"
  "gsap_tweens (start_spin c d w) = gsap_tweens w"
  "closures (start_spin c d w) = closures w"
  "cursorRef (start_spin c d w) = cursorRef w"
  "dotRef (start_spin c d w) = dotRef w"
  "spinTl (start_spin c d w) = Some (length (timelines w))"
  "timelines (start_spin c d w) = timelines (kill_current w) @ [spin_timeline c d]"
  by (simp_all add: start_spin_def gsap_timeline_to_def spin_vars_def spin_timeline_def)


lemma effect_cleanup:
  "cursorRef w = Some c \<Longrightarrow>
   fst (useEffect_TargetCursor d h w) = cleanup_full (body_cursor w) (closures w)"
  by (cases h) (simp_all add: useEffect_TargetCursor_def Let_def)

lemma effect_listeners:
  assumes "cursorRef w = Some c" and "listeners w = []"
  shows "listeners (snd (useEffect_TargetCursor d h w))
           = [(mousemove, moveHandler (closures w)),
              (mousedown, mouseDownHandler (closures w)),
              (mouseup, mouseUpHandler (closures w))]"
  using assms
  by (cases h) (simp_all add: useEffect_TargetCursor_def Let_def)


lemma timelines_kill:
  "timelines (kill i w) = (timelines w)[i := (timelines w ! i)\<lparr>killed := True\<rparr>]"
  by (simp add: kill_def list_update_beyond)

lemma timelines_kill_current:
  "timelines (kill_current w) =
     (case spinTl w of None \<Rightarrow> timelines w
      | Some i \<Rightarrow> (timelines w)[i := (timelines w ! i)\<lparr>killed := True\<rparr>])"
  by (simp add: kill_current_def timelines_kill split: option.splits)

lemma effect_fields:
  assumes "cursorRef w = Some c"
  shows "spinTl (snd (useEffect_TargetCursor d h w)) = Some (length (timelines w))"
    and "timelines (snd (useEffect_TargetCursor d h w))
           = timelines (kill_current w) @ [spin_timeline c d]"
    and "body_cursor (snd (useEffect_TargetCursor d h w)) = (if h then ''none'' else body_cursor w)"
    and "cursor_writes (snd (useEffect_TargetCursor d h w))
           = cursor_writes w @ (if h then [''none''] else [])"
    and "cursorRef (snd (useEffect_TargetCursor d h w)) = cursorRef w"
    and "dotRef (snd (useEffect_TargetCursor d h w)) = dotRef w"
    and "gsap_tweens (snd (useEffect_TargetCursor d h w)) = gsap_tweens w"
    and "gsap_sets (snd (useEffect_TargetCursor d h w))
           = gsap_sets w @ [(c, center_vars w)]"
  using assms
  by (simp_all add: useEffect_TargetCursor_def Let_def timelines_kill_current center_vars_def
        split: option.splits)

lemma alive_snoc:
  "alive (w\<lparr>timelines := ts @ [t]\<rparr>)
     = alive (w\<lparr>timelines := ts\<rparr>) @ (if killed t then [] else [length ts])"
proof -
  have "filter (\<lambda>i. \<not> killed ((ts @ [t]) ! i)) [0..<length ts]
        = filter (\<lambda>i. \<not> killed (ts ! i)) [0..<length ts]"
    by (rule filter_cong) (simp_all add: nth_append)
  then show ?thesis by (simp add: alive_def)
qed

lemma alive_cong: "timelines w = timelines w' \<Longrightarrow> alive w = alive w'"
  by (simp add: alive_def)

lemma killed_nth_update:
  "j < length ts \<Longrightarrow>
   killed (ts[i := (ts ! i)\<lparr>killed := True\<rparr>] ! j) = (j = i \<or> killed (ts ! j))"
  by (cases "j = i") simp_all

lemma alive_kill: "alive (kill i w) = removeAll i (alive w)"
proof -
  have "filter (\<lambda>j. \<not> killed ((timelines w)[i := (timelines w ! i)\<lparr>killed := True\<rparr>] ! j))
          [0..<length (timelines w)]
        = filter (\<lambda>j. j \<noteq> i \<and> \<not> killed (timelines w ! j)) [0..<length (timelines w)]"
    by (rule filter_cong) (simp_all add: killed_nth_update)
  also have "\<dots> = removeAll i (filter (\<lambda>j. \<not> killed (timelines w ! j)) [0..<length (timelines w)])"
    by (auto simp: removeAll_filter_not_eq intro!: filter_cong)
  finally show ?thesis by (simp add: alive_def timelines_kill)
qed

lemma alive_kill_current: "spin_ok w \<Longrightarrow> alive (kill_current w) = []"
  by (auto simp: spin_ok_def kill_current_def alive_kill split: option.splits)

lemma alive_effect_available:
  assumes "cursorRef w = Some c" and "spin_ok w"
  shows "alive (snd (useEffect_TargetCursor d h w)) = [length (timelines w)]"
proof -
  let ?w' = "snd (useEffect_TargetCursor d h w)"
  have "timelines ?w' = timelines ((kill_current w)\<lparr>timelines := timelines (kill_current w) @ [spin_timeline c d]\<rparr>)"
    using effect_fields(2) [OF assms(1)] by simp
  then have "alive ?w' = alive ((kill_current w)\<lparr>timelines := timelines (kill_current w) @ [spin_timeline c d]\<rparr>)"
    by (rule alive_cong)
  also have "\<dots> = alive (kill_current w) @ [length (timelines w)]"
    by (simp add: alive_snoc spin_timeline_def)
  finally show ?thesis using alive_kill_current [OF assms(2)] by simp
qed

lemma run_handler_frame:
  "(run_handler h e w)\<lparr>gsap_tweens := ts\<rparr> = w\<lparr>gsap_tweens := ts\<rparr>"
  by (cases h)
     (simp_all add: moveCursor_def mouseDown_body_def mouseUp_body_def gsap_to_def
        split: option.splits)

lemma deliver_frame:
  "(foldl (\<lambda>v (ty, h). if ty = t then run_handler h e v else v) w ls)\<lparr>gsap_tweens := ts\<rparr>
     = w\<lparr>gsap_tweens := ts\<rparr>"
proof (induction ls arbitrary: w)
  case Nil
  show ?case by simp
next
  case (Cons x ls)
  obtain ty h where x: "x = (ty, h)" by (cases x)
  show ?case using Cons.IH x by (simp add: run_handler_frame)
qed

lemma dispatch_frame:
  "(dispatch e w)\<lparr>gsap_tweens := ts\<rparr> = w\<lparr>gsap_tweens := ts\<rparr>"
  unfolding dispatch_def by (rule deliver_frame)

lemma dispatch_fields [simp]:
  "timelines (dispatch e w) = timelines w"
  "spinTl (dispatch e w) = spinTl w"
  "listeners (dispatch e w) = listeners w"
  "body_cursor (dispatch e w) = body_cursor w"
  "cursor_writes (dispatch e w) = cursor_writes w"
  "cursorRef (dispatch e w) = cursorRef w"
  "dotRef (dispatch e w) = dotRef w"
  "gsap_sets (dispatch e w) = gsap_sets w"
proof -
  have eq: "(dispatch e w)\<lparr>gsap_tweens := []\<rparr> = w\<lparr>gsap_tweens := []\<rparr>"
    by (rule dispatch_frame)
  show "timelines (dispatch e w) = timelines w"
    using arg_cong [OF eq, of timelines] by simp
  show "spinTl (dispatch e w) = spinTl w"
    using arg_cong [OF eq, of spinTl] by simp
  show "listeners (dispatch e w) = listeners w"
    using arg_cong [OF eq, of listeners] by simp
  show "body_cursor (dispatch e w) = body_cursor w"
    using arg_cong [OF eq, of body_cursor] by simp
  show "cursor_writes (dispatch e w) = cursor_writes w"
    using arg_cong [OF eq, of cursor_writes] by simp
  show "cursorRef (dispatch e w) = cursorRef w"
    using arg_cong [OF eq, of cursorRef] by simp
  show "dotRef (dispatch e w) = dotRef w"
    using arg_cong [OF eq, of dotRef] by simp
  show "gsap_sets (dispatch e w) = gsap_sets w"
    using arg_cong [OF eq, of gsap_sets] by simp
qed

lemma dispatch_all_snoc: "dispatch_all w (es @ [e]) = dispatch e (dispatch_all w es)"
  by (simp add: dispatch_all_def)

lemma dispatch_all_fields [simp]:
  "timelines (dispatch_all w es) = timelines w"
  "spinTl (dispatch_all w es) = spinTl w"
  "listeners (dispatch_all w es) = listeners w"
  "body_cursor (dispatch_all w es) = body_cursor w"
  "cursor_writes (dispatch_all w es) = cursor_writes w"
  "cursorRef (dispatch_all w es) = cursorRef w"
  "dotRef (dispatch_all w es) = dotRef w"
  by (induction es rule: rev_induct) (simp_all add: dispatch_all_snoc, simp_all add: dispatch_all_def)

lemma alive_frame [simp]:
  "alive (set_body_cursor v w) = alive w"
  "alive (removeEventListener ty h w) = alive w"
  "alive (addEventListener ty h w) = alive w"
  "alive (gsap_set n vs w) = alive w"
  "alive (dispatch e w) = alive w"
  "alive (attach c d w) = alive w"
  "alive (w\<lparr>spinTl := x\<rparr>) = alive w"
  by (simp_all add: alive_def attach_def)

lemma spin_ok_frame [simp]:
  "spin_ok (dispatch e w) = spin_ok w"
  "spin_ok (attach c d w) = spin_ok w"
  by (simp_all add: spin_ok_def attach_def alive_def)

lemma spin_ok_empty: "alive w = [] \<Longrightarrow> spin_ok w"
  by (simp add: spin_ok_def)

lemma spin_ok_le_one: "spin_ok w \<Longrightarrow> length (alive w) \<le> 1"
  by (auto simp: spin_ok_def)

lemma effect_unavailable:
  "cursorRef w = None \<Longrightarrow>
   useEffect_TargetCursor d h w = (cleanup_noop, if h then set_body_cursor ''none'' w else w)"
  by (simp add: useEffect_TargetCursor_def)

lemma spin_ok_effect:
  assumes "spin_ok w"
  shows "spin_ok (snd (useEffect_TargetCursor d h w))"
proof (cases "cursorRef w")
  case None
  then show ?thesis using assms by (simp add: effect_unavailable spin_ok_def)
next
  case (Some c)
  then show ?thesis
    using alive_effect_available [OF Some assms] effect_fields(1) [OF Some]
    by (simp add: spin_ok_def)
qed

lemma alive_run_cleanup:
  assumes "if c = cleanup_noop then alive w = [] else spin_ok w"
  shows "alive (run_cleanup c w) = []"
proof (cases c)
  case cleanup_noop
  then show ?thesis using assms by simp
next
  case (cleanup_full o' k)
  then have "spin_ok w" using assms by simp
  then have "spin_ok (removeEventListener mouseup (mouseUpHandler k)
           (removeEventListener mousedown (mouseDownHandler k)
             (removeEventListener mousemove (moveHandler k) w)))"
    by (simp add: spin_ok_def)
  then show ?thesis using cleanup_full by (simp add: alive_kill_current)
next
  case (cleanup_move_only o' k)
  then have "spin_ok w" using assms by simp
  then have "spin_ok (removeEventListener mousemove (moveHandler k) w)"
    by (simp add: spin_ok_def)
  then show ?thesis using cleanup_move_only by (simp add: alive_kill_current)
qed

lemma spin_after_effect:
  assumes "alive w = []"
  shows "if fst (useEffect_TargetCursor d h w) = cleanup_noop
         then alive (snd (useEffect_TargetCursor d h w)) = []
         else spin_ok (snd (useEffect_TargetCursor d h w))"
proof (cases "cursorRef w")
  case None
  then show ?thesis using assms by (simp add: effect_unavailable)
next
  case (Some c)
  then show ?thesis
    using spin_ok_effect [OF spin_ok_empty [OF assms], of d h]
    by (simp add: effect_cleanup)
qed

lemma spin_inv_step:
  assumes "spin_inv s"
  shows "spin_inv (lc_step useEffect_TargetCursor s ev)"
proof (cases s)
  case (Unmounted w)
  then have a: "alive w = []" using assms by simp
  show ?thesis
  proof (cases ev)
    case (Mount d h)
    have "alive (w\<lparr>spinTl := None\<rparr>) = []" using a by simp
    from spin_after_effect [OF this, of d h] show ?thesis
      using Unmounted Mount by (simp add: mount_cursor_def case_prod_beta)
  qed (use Unmounted a in simp_all)
next
  case (Mounted m)
  then have inv: "if pending m = cleanup_noop then alive (page m) = [] else spin_ok (page m)"
    using assms by simp
  show ?thesis
  proof (cases ev)
    case (Render d h)
    show ?thesis
    proof (cases "deps m = (d, h)")
      case True
      then show ?thesis using Mounted Render inv by (simp add: rerender_cursor_def)
    next
      case False
      have "alive (run_cleanup (pending m) (page m)) = []"
        by (rule alive_run_cleanup [OF inv])
      from spin_after_effect [OF this, of d h] show ?thesis
        using Mounted Render False by (simp add: rerender_cursor_def case_prod_beta)
    qed
  next
    case Unmount
    then show ?thesis
      using Mounted alive_run_cleanup [OF inv] by (simp add: unmount_cursor_def)
  qed (use Mounted inv in simp_all)
qed

lemma spin_inv_run:
  "spin_inv s \<Longrightarrow> spin_inv (lc_run useEffect_TargetCursor s evs)"
  unfolding lc_run_def
  by (induction evs rule: rev_induct) (simp_all add: spin_inv_step)

lemma spin_inv_le_one: "spin_inv s \<Longrightarrow> length (alive (page_of s)) \<le> 1"
  by (cases s) (auto dest: spin_ok_le_one split: if_splits)

lemma listeners_attach [simp]: "listeners (attach c d w) = listeners w"
  by (simp add: attach_def)

lemma listeners_after_effect:
  assumes "listeners w = []"
  shows "listeners_inv (Mounted \<lparr>page = snd (useEffect_TargetCursor d h w),
           pending = fst (useEffect_TargetCursor d h w), deps = (d, h)\<rparr>)"
proof (cases "cursorRef w")
  case None
  then show ?thesis using assms by (simp add: effect_unavailable)
next
  case (Some c)
  then show ?thesis
    using effect_listeners [OF Some assms, of d h] by (simp add: effect_cleanup)
qed

lemma listeners_before_effect:
  assumes "listeners_inv (Mounted m)"
  shows "listeners (run_cleanup (pending m) (page m)) = []"
  using assms by (cases "pending m") simp_all

lemma listeners_inv_step:
  assumes "listeners_inv s"
  shows "listeners_inv (lc_step useEffect_TargetCursor s ev)"
proof (cases s)
  case (Unmounted w)
  then have a: "listeners w = []" using assms by simp
  show ?thesis
  proof (cases ev)
    case (Mount d h)
    have "listeners (w\<lparr>spinTl := None\<rparr>) = []" using a by simp
    from listeners_after_effect [OF this, of d h] show ?thesis
      using Unmounted Mount by (simp add: mount_cursor_def case_prod_beta)
  qed (use Unmounted a in simp_all)
next
  case (Mounted m)
  then have inv: "listeners_inv (Mounted m)" using assms by simp
  show ?thesis
  proof (cases ev)
    case (Render d h)
    show ?thesis
    proof (cases "deps m = (d, h)")
      case True
      then show ?thesis using Mounted Render inv by (simp add: rerender_cursor_def)
    next
      case False
      from listeners_after_effect [OF listeners_before_effect [OF inv], of d h]
      show ?thesis
        using Mounted Render False by (simp add: rerender_cursor_def case_prod_beta)
    qed
  next
    case Unmount
    then show ?thesis
      using Mounted listeners_before_effect [OF inv] by (simp add: unmount_cursor_def)
  qed (use Mounted inv in \<open>simp_all split: cleanup.splits\<close>)
qed

lemma listeners_inv_run:
  "listeners_inv s \<Longrightarrow> listeners_inv (lc_run useEffect_TargetCursor s evs)"
  unfolding lc_run_def
  by (induction evs rule: rev_induct) (simp_all add: listeners_inv_step)

lemma dispatch_press:
  assumes "listeners w = [(mousemove, moveHandler k), (mousedown, mouseDownHandler k),
                          (mouseup, mouseUpHandler k)]"
    and "cursorRef w = Some c" and "dotRef w = Some d"
  shows "gsap_tweens (dispatch \<lparr>etype = mousedown, clientX = x, clientY = y\<rparr> w)
           = gsap_tweens w @
             [\<lparr>target = d, vars = [(''scale'', Num (8 / 10))], duration = 15 / 100,
               ease = ease_default\<rparr>,
              \<lparr>target = c, vars = [(''scale'', Num (95 / 100))], duration = 15 / 100,
               ease = ease_default\<rparr>]"
  using assms by (simp add: dispatch_def mouseDown_body_def gsap_to_def)

lemma dispatch_release:
  assumes "listeners w = [(mousemove, moveHandler k), (mousedown, mouseDownHandler k),
                          (mouseup, mouseUpHandler k)]"
    and "cursorRef w = Some c" and "dotRef w = Some d"
  shows "gsap_tweens (dispatch \<lparr>etype = mouseup, clientX = x, clientY = y\<rparr> w)
           = gsap_tweens w @
             [\<lparr>target = d, vars = [(''scale'', Num 1)], duration = 15 / 100,
               ease = ease_default\<rparr>,
              \<lparr>target = c, vars = [(''scale'', Num 1)], duration = 15 / 100,
               ease = ease_default\<rparr>]"
  using assms by (simp add: dispatch_def mouseUp_body_def gsap_to_def)

section \<open>The navigator: what the rendered controls can do\<close>

lemma rerender_same: "deps m = (d, h) \<Longrightarrow> rerender_cursor eff d h m = m"
  by (simp add: rerender_cursor_def)

lemma deps_rerender: "deps (rerender_cursor eff d h m) = (d, h)"
  by (simp add: rerender_cursor_def case_prod_beta)

lemma deps_mount: "deps (mount_cursor eff d h w) = (d, h)"
  by (simp add: mount_cursor_def case_prod_beta)

lemma cursor_setScreen: "deps (cursor a) = (2, True) \<Longrightarrow> cursor (setScreen t a) = cursor a"
  by (simp add: setScreen_def rerender_same)

lemma navigate_all_snoc: "navigate_all a (ts @ [t]) = setScreen t (navigate_all a ts)"
  by (simp add: navigate_all_def)

lemma cursor_navigate_all:
  "deps (cursor a) = (2, True) \<Longrightarrow> cursor (navigate_all a ts) = cursor a"
proof (induction ts rule: rev_induct)
  case Nil
  show ?case by (simp add: navigate_all_def)
next
  case (snoc t ts)
  then show ?case by (simp add: navigate_all_snoc cursor_setScreen)
qed

lemma screen_navigate_all: "ts \<noteq> [] \<Longrightarrow> screen (navigate_all a ts) = last ts"
  by (cases ts rule: rev_cases) (simp_all add: navigate_all_snoc setScreen_def)

lemma setScreen_twice: "setScreen t (setScreen t a) = setScreen t a"
  by (simp add: setScreen_def rerender_same deps_rerender)

lemmas view_defs = PhoneMockup_def HomeScreen_def ShopScreen_def SaveScreen_def
  InvestScreen_def

lemma mount_effect_of_first_render:
  "App_mount_effect (App_first_render w)
     = ([''Invest screen should be shown after clicking nav-invest''],
        setScreen Invest (App_first_render w))"
proof -
  have "screen (App_first_render w) = Home" by (simp add: App_first_render_def)
  then show ?thesis
    by (simp add: App_mount_effect_def App_view_def view_defs click_def console_assert_def)
qed

lemma App_mount_state: "App_mount w = setScreen Invest (App_first_render w)"
  by (simp add: App_mount_def mount_effect_of_first_render)

text \<open>
  Claim C2, as amended. In \<^verbatim>\<open>src/App.tsx\<close> the screens that one click on a control
  rendered by \<^verbatim>\<open>PhoneMockup\<close> leads to are exactly Shop, Save and Invest from Home, and
  exactly Home from each of Shop, Save and Invest: the star, and nothing else.
\<close>

theorem star_topology_of_PhoneMockup:
  "nav_targets a = (case screen a of Home \<Rightarrow> [Shop, Save, Invest] | Shop \<Rightarrow> [Home]
                    | Save \<Rightarrow> [Home] | Invest \<Rightarrow> [Home])"
  by (cases "screen a") (simp_all add: nav_targets_def App_view_def view_defs setScreen_def)

text \<open>
  In \<^verbatim>\<open>part_000\<close> the four buttons lead from every screen to every screen.
\<close>

lemma nav_targets_part000_everywhere:
  "nav_targets_part000 a = [Home, Shop, Save, Invest]"
  by (simp add: nav_targets_part000_def App_part000_view_def setScreen_part000_def)

text \<open>
  Claim C2 as stated fails on the \<^verbatim>\<open>App\<close> of \<^verbatim>\<open>part_000\<close>, whose four buttons are
  rendered on every screen: on the Shop screen one click leads to Invest (and to Save,
  and to Shop itself).
\<close>

theorem part000_buttons_join_shop_to_invest:
  "screen (setScreen_part000 Shop (App_part000_mount page0)) = Shop
   \<and> nav_targets_part000 (setScreen_part000 Shop (App_part000_mount page0))
       = [Home, Shop, Save, Invest]"
  by (simp add: nav_targets_part000_def App_part000_view_def setScreen_part000_def)

text \<open>
  Claim C3. After any non-empty sequence of \<^verbatim>\<open>setScreen\<close> requests, from any state of
  \<^verbatim>\<open>App\<close>, the current screen is the last requested target; the cursor controller that
  \<^verbatim>\<open>App\<close> mounted (dependencies 2 and true) is left as it was, so the screen is all that a
  request changes; and a repeated request changes nothing more. \<open>setScreen\<close> is a
  function on all four screen names with no failing branch, as the setter of
  \<^verbatim>\<open>useState\<close> is.
\<close>

theorem navigate_sets_last_target_only:
  assumes "ts \<noteq> []" and "deps (cursor a) = (2, True)"
  shows "screen (navigate_all a ts) = last ts
       \<and> cursor (navigate_all a ts) = cursor a
       \<and> setScreen t (setScreen t a) = setScreen t a"
  using assms by (simp add: screen_navigate_all cursor_navigate_all setScreen_twice)

text \<open>
  The hypotheses of C3 hold in the state right after mount, for the requests Shop, Home,
  Invest, Invest.
\<close>

theorem navigate_sets_last_target_only_witness:
  "[Shop, Home, Invest, Invest] \<noteq> []
   \<and> deps (cursor (App_mount page0)) = (2, True)
   \<and> screen (navigate_all (App_mount page0) [Shop, Home, Invest, Invest]) = Invest
   \<and> cursor (navigate_all (App_mount page0) [Shop, Home, Invest, Invest])
       = cursor (App_mount page0)
   \<and> setScreen Save (setScreen Save (App_mount page0)) = setScreen Save (App_mount page0)"
proof -
  have d: "deps (cursor (App_mount page0)) = (2, True)"
    by (simp add: App_mount_state setScreen_def deps_rerender)
  have n: "[Shop, Home, Invest, Invest] \<noteq> []" by simp
  show ?thesis
    using navigate_sets_last_target_only [OF n d, of Save] d by simp
qed

text \<open>
  Claim C4. In every state of \<^verbatim>\<open>App\<close> the view of a screen is present in the rendered
  mockup exactly when that screen is the current one, and for every value of the screen
  variable \<^verbatim>\<open>PhoneMockup\<close> renders one screen view, the current one.
\<close>

theorem exactly_one_screen_view:
  "present (screen_testid v) (App_view a) = (v = screen a)
   \<and> map label (kids (PhoneMockup s f)) = [screen_testid s]"
proof
  show "present (screen_testid v) (App_view a) = (v = screen a)"
    by (cases "screen a"; cases v)
       (simp_all add: present_def screen_testid_def App_view_def view_defs)
  show "map label (kids (PhoneMockup s f)) = [screen_testid s]"
    by (cases s) (simp_all add: screen_testid_def view_defs)
qed

text \<open>
  Claim C5 fails on every mount. The first render shows Home, but the mount effect of
  \<^verbatim>\<open>App\<close> clicks \<^verbatim>\<open>nav-invest\<close>, looks for \<^verbatim>\<open>back-btn\<close> in the document of the first
  render, which has none, and so never reverts: the only assertion logged is the one that
  the Invest screen should be shown, and the mounted \<^verbatim>\<open>App\<close> is on Invest before any request
  of the user, on the first mount and on every later one.
\<close>

theorem mount_effect_leaves_Invest:
  "screen (App_first_render w) = Home
   \<and> App_mount_effect (App_first_render w)
       = ([''Invest screen should be shown after clicking nav-invest''],
          setScreen Invest (App_first_render w))
   \<and> screen (App_mount w) = Invest
   \<and> screen (App_mount (App_unmount a)) = Invest"
  by (simp add: App_mount_state mount_effect_of_first_render)
     (simp add: App_first_render_def setScreen_def)

section \<open>The cursor controller over its lifecycle\<close>

lemmas eval_defs = page0_def attach_def mount_cursor_def unmount_cursor_def
  rerender_cursor_def useEffect_TargetCursor_def useEffect_TargetCursor_part000_def
  start_spin_def gsap_timeline_to_def center_vars_def spin_vars_def Let_def

text \<open>
  When the element is attached, a mount followed by an unmount leaves
  \<^verbatim>\<open>document.body.style.cursor\<close> as it was before the mount.
\<close>

lemma completed_activation_restores_cursor:
  assumes "cursorRef w = Some c"
  shows "body_cursor (unmount_cursor (mount_cursor useEffect_TargetCursor d h w))
           = body_cursor w"
proof -
  have "cursorRef (w\<lparr>spinTl := None\<rparr>) = Some c" using assms by simp
  from effect_cleanup [OF this, of d h] show ?thesis
    by (simp add: unmount_cursor_def mount_cursor_def case_prod_beta)
qed

text \<open>
  Claim C1 fails on the path it names. With \<^verbatim>\<open>hideDefaultCursor=true\<close> and no element attached
  when the effect runs, the effect has already written \<^verbatim>\<open>'none'\<close> when it returns
  \<^verbatim>\<open>() => void 0\<close>, and the unmount that follows restores nothing: the page that had the cursor
  \<^verbatim>\<open>'pointer'\<close> before the mount has \<^verbatim>\<open>'none'\<close> after the unmount.
\<close>

theorem interrupted_activation_leaves_cursor_hidden:
  "cursorRef (attach None None page0) = None
   \<and> body_cursor (attach None None page0) = ''pointer''
   \<and> body_cursor (page (mount_cursor useEffect_TargetCursor 2 True (attach None None page0)))
       = ''none''
   \<and> body_cursor
        (unmount_cursor (mount_cursor useEffect_TargetCursor 2 True (attach None None page0)))
       = ''none''"
  by (simp add: eval_defs)

text \<open>
  Claim C6. If \<^verbatim>\<open>cursorRef.current\<close> is empty when the effect runs, the effect returns the
  empty cleanup and has made no call of \<^verbatim>\<open>gsap.set\<close>, started no tween and no timeline, left
  \<^verbatim>\<open>spinTl\<close> alone and subscribed to nothing. The effect has no failing branch: it returns
  its cleanup in every case.
\<close>

theorem unavailable_element_silent_noop:
  assumes "cursorRef w = None" and "useEffect_TargetCursor d h w = (cl, w')"
  shows "cl = cleanup_noop \<and> gsap_sets w' = gsap_sets w \<and> gsap_tweens w' = gsap_tweens w
       \<and> timelines w' = timelines w \<and> spinTl w' = spinTl w \<and> listeners w' = listeners w"
  using assms by (auto simp: effect_unavailable)

text \<open>
  The hypotheses of C6 hold on the example page with both elements detached.
\<close>

theorem unavailable_element_silent_noop_witness:
  "cursorRef (attach None None page0) = None
   \<and> useEffect_TargetCursor 2 True (attach None None page0)
       = (cleanup_noop, set_body_cursor ''none'' (attach None None page0))
   \<and> gsap_sets (set_body_cursor ''none'' (attach None None page0)) = []
   \<and> timelines (set_body_cursor ''none'' (attach None None page0)) = []
   \<and> listeners (set_body_cursor ''none'' (attach None None page0)) = []"
proof -
  have r: "cursorRef (attach None None page0) = None" by (simp add: attach_def)
  have e: "useEffect_TargetCursor 2 True (attach None None page0)
       = (cleanup_noop, set_body_cursor ''none'' (attach None None page0))"
    by (simp add: useEffect_TargetCursor_def attach_def)
  show ?thesis
    using unavailable_element_silent_noop [OF r e] r e
    by (simp add: attach_def page0_def)
qed

text \<open>
  Claim C7. When the effect runs with the element \<open>c\<close> attached, \<^verbatim>\<open>spinTl.current\<close> refers to a new
  timeline with \<^verbatim>\<open>repeat: -1\<close> (the library's value for endless repetition) whose one tween
  turns \<open>c\<close> by \<^verbatim>\<open>rotation: '+=360'\<close> in \<^verbatim>\<open>spinDuration\<close> seconds with \<^verbatim>\<open>ease: 'none'\<close>; the timeline is
  still running after any pointer events, and the cleanup that the effect returned kills
  it.
\<close>

theorem activation_starts_endless_linear_spin:
  assumes "cursorRef w = Some c" and "useEffect_TargetCursor d h w = (cl, w1)"
  shows "spinTl (dispatch_all w1 es) = Some (length (timelines w))
       \<and> timelines (dispatch_all w1 es) ! length (timelines w)
           = \<lparr>repeat = - 1,
              children = [\<lparr>target = c, vars = [(''rotation'', Rel 360)], duration = d,
                          ease = ease_none\<rparr>],
              killed = False\<rparr>
       \<and> timelines (run_cleanup cl (dispatch_all w1 es)) ! length (timelines w)
           = \<lparr>repeat = - 1,
              children = [\<lparr>target = c, vars = [(''rotation'', Rel 360)], duration = d,
                          ease = ease_none\<rparr>],
              killed = True\<rparr>"
proof -
  let ?n = "length (timelines w)"
  have cl: "cl = cleanup_full (body_cursor w) (closures w)"
    using effect_cleanup [OF assms(1), of d h] assms(2) by simp
  have w1: "w1 = snd (useEffect_TargetCursor d h w)" using assms(2) by simp
  have sp: "spinTl w1 = Some ?n" using effect_fields(1) [OF assms(1), of d h] w1 by simp
  have tl: "timelines w1 = timelines (kill_current w) @ [spin_timeline c d]"
    using effect_fields(2) [OF assms(1), of d h] w1 by simp
  have len: "length (timelines (kill_current w)) = ?n" by simp
  have nth: "timelines w1 ! ?n = spin_timeline c d"
    using tl len by (metis nth_append_length)
  have "timelines (run_cleanup cl (dispatch_all w1 es)) ! ?n
          = (timelines w1)[?n := (timelines w1 ! ?n)\<lparr>killed := True\<rparr>] ! ?n"
    using cl sp by (simp add: timelines_kill_current)
  also have "\<dots> = (spin_timeline c d)\<lparr>killed := True\<rparr>"
    using nth tl len by simp
  finally show ?thesis using sp nth by (simp add: spin_timeline_def)
qed

text \<open>
  The hypotheses of C7 hold on the example page, for a press and a release.
\<close>

theorem activation_starts_endless_linear_spin_witness:
  "cursorRef page0 = Some 0
   \<and> spinTl (dispatch_all (snd (useEffect_TargetCursor 2 True page0)) [press, release]) = Some 0
   \<and> timelines (dispatch_all (snd (useEffect_TargetCursor 2 True page0)) [press, release]) ! 0
       = \<lparr>repeat = - 1,
          children = [\<lparr>target = 0, vars = [(''rotation'', Rel 360)], duration = 2,
                      ease = ease_none\<rparr>],
          killed = False\<rparr>
   \<and> timelines (run_cleanup (fst (useEffect_TargetCursor 2 True page0))
        (dispatch_all (snd (useEffect_TargetCursor 2 True page0)) [press, release])) ! 0
       = \<lparr>repeat = - 1,
          children = [\<lparr>target = 0, vars = [(''rotation'', Rel 360)], duration = 2,
                      ease = ease_none\<rparr>],
          killed = True\<rparr>"
proof -
  have r: "cursorRef page0 = Some 0" by (simp add: page0_def)
  have e: "useEffect_TargetCursor 2 True page0
       = (fst (useEffect_TargetCursor 2 True page0), snd (useEffect_TargetCursor 2 True page0))"
    by simp
  have l: "length (timelines page0) = 0" by (simp add: page0_def)
  show ?thesis
    using activation_starts_endless_linear_spin [OF r e, of "[press, release]"] r l by simp
qed

text \<open>
  Claim C9. Along every run of lifecycle events that starts unmounted on a page where no
  timeline runs, at most one timeline runs in every state. The effect itself, run where
  at most the timeline of \<^verbatim>\<open>spinTl.current\<close> runs, leaves exactly the new one running, and its
  cleanup then leaves none.
\<close>

theorem at_most_one_spin_timeline:
  assumes "alive w0 = []" and "spin_ok w" and "cursorRef w = Some c"
  shows "length (alive (page_of (lc_run useEffect_TargetCursor (Unmounted w0) evs))) \<le> 1
       \<and> alive (snd (useEffect_TargetCursor d h w)) = [length (timelines w)]
       \<and> alive (run_cleanup (fst (useEffect_TargetCursor d h w))
                  (snd (useEffect_TargetCursor d h w))) = []"
proof -
  have "spin_inv (Unmounted w0)" using assms(1) by simp
  then have "spin_inv (lc_run useEffect_TargetCursor (Unmounted w0) evs)"
    by (rule spin_inv_run)
  then have a: "length (alive (page_of (lc_run useEffect_TargetCursor (Unmounted w0) evs))) \<le> 1"
    by (rule spin_inv_le_one)
  have b: "alive (snd (useEffect_TargetCursor d h w)) = [length (timelines w)]"
    by (rule alive_effect_available [OF assms(3) assms(2)])
  have "spin_ok (snd (useEffect_TargetCursor d h w))"
    by (rule spin_ok_effect [OF assms(2)])
  then have c: "alive (run_cleanup (fst (useEffect_TargetCursor d h w))
                  (snd (useEffect_TargetCursor d h w))) = []"
    using effect_cleanup [OF assms(3), of d h] by (intro alive_run_cleanup) simp
  show ?thesis using a b c by blast
qed


text \<open>
  The hypotheses of C9 hold on the example page and in the state after a first run of the
  effect, where a second run (a changed \<^verbatim>\<open>spinDuration\<close>) takes place.
\<close>

theorem at_most_one_spin_timeline_witness:
  "alive page0 = []
   \<and> spin_ok (snd (useEffect_TargetCursor 2 True page0))
   \<and> cursorRef (snd (useEffect_TargetCursor 2 True page0)) = Some 0
   \<and> length (alive (page_of (lc_run useEffect_TargetCursor (Unmounted page0)
         [Mount 2 True, Pointer press, Render 3 True, Pointer release, Unmount,
          Mount 1 False]))) \<le> 1
   \<and> alive (snd (useEffect_TargetCursor 3 True (snd (useEffect_TargetCursor 2 True page0))))
       = [1]
   \<and> alive (run_cleanup
        (fst (useEffect_TargetCursor 3 True (snd (useEffect_TargetCursor 2 True page0))))
        (snd (useEffect_TargetCursor 3 True (snd (useEffect_TargetCursor 2 True page0)))))
       = []"
proof -
  have a: "alive page0 = []" by (simp add: alive_def page0_def)
  have r0: "cursorRef page0 = Some 0" by (simp add: page0_def)
  have s: "spin_ok (snd (useEffect_TargetCursor 2 True page0))"
    using a by (intro spin_ok_effect spin_ok_empty)
  have r: "cursorRef (snd (useEffect_TargetCursor 2 True page0)) = Some 0"
    using effect_fields(5) [OF r0, of 2 True] r0 by simp
  have l: "length (timelines (snd (useEffect_TargetCursor 2 True page0))) = 1"
    using effect_fields(2) [OF r0, of 2 True] by (simp add: page0_def)
  show ?thesis
    using at_most_one_spin_timeline [OF a s r, of _ 3 True] a s r l by simp
qed

text \<open>
  Claim C10. With \<^verbatim>\<open>hideDefaultCursor=false\<close> the effect writes nothing to
  \<^verbatim>\<open>document.body.style.cursor\<close>, no pointer event does, and the cleanup writes at most the
  value captured at activation, which is the value still there: the value is the same
  after activation, after any pointer events and after teardown.
\<close>

theorem visible_cursor_never_touched:
  assumes "useEffect_TargetCursor d False w = (cl, w1)"
  shows "body_cursor w1 = body_cursor w \<and> cursor_writes w1 = cursor_writes w
       \<and> body_cursor (dispatch_all w1 es) = body_cursor w
       \<and> cursor_writes (dispatch_all w1 es) = cursor_writes w
       \<and> body_cursor (run_cleanup cl (dispatch_all w1 es)) = body_cursor w
       \<and> cursor_writes (run_cleanup cl (dispatch_all w1 es))
           = cursor_writes w @ (if cl = cleanup_noop then [] else [body_cursor w])"
proof (cases "cursorRef w")
  case None
  then show ?thesis using assms by (auto simp: effect_unavailable)
next
  case (Some c)
  have cl: "cl = cleanup_full (body_cursor w) (closures w)"
    using effect_cleanup [OF Some, of d False] assms by simp
  have w1: "w1 = snd (useEffect_TargetCursor d False w)" using assms by simp
  have b: "body_cursor w1 = body_cursor w"
    using effect_fields(3) [OF Some, of d False] w1 by simp
  have c: "cursor_writes w1 = cursor_writes w"
    using effect_fields(4) [OF Some, of d False] w1 by simp
  show ?thesis using b c cl by simp
qed

text \<open>
  The hypothesis of C10 holds on the example page, for a press and a release.
\<close>

theorem visible_cursor_never_touched_witness:
  "body_cursor (snd (useEffect_TargetCursor 2 False page0)) = ''pointer''
   \<and> cursor_writes (snd (useEffect_TargetCursor 2 False page0)) = []
   \<and> body_cursor (dispatch_all (snd (useEffect_TargetCursor 2 False page0)) [press, release])
       = ''pointer''
   \<and> cursor_writes (dispatch_all (snd (useEffect_TargetCursor 2 False page0)) [press, release])
       = []
   \<and> body_cursor (run_cleanup (fst (useEffect_TargetCursor 2 False page0))
        (dispatch_all (snd (useEffect_TargetCursor 2 False page0)) [press, release]))
       = ''pointer''
   \<and> cursor_writes (run_cleanup (fst (useEffect_TargetCursor 2 False page0))
        (dispatch_all (snd (useEffect_TargetCursor 2 False page0)) [press, release]))
       = [''pointer'']"
proof -
  have e: "useEffect_TargetCursor 2 False page0
       = (fst (useEffect_TargetCursor 2 False page0), snd (useEffect_TargetCursor 2 False page0))"
    by simp
  have r0: "cursorRef page0 = Some 0" by (simp add: page0_def)
  have f: "fst (useEffect_TargetCursor 2 False page0) \<noteq> cleanup_noop"
    using effect_cleanup [OF r0, of 2 False] by simp
  have p: "body_cursor page0 = ''pointer''" "cursor_writes page0 = []"
    by (simp_all add: page0_def)
  show ?thesis
    using visible_cursor_never_touched [OF e, of "[press, release]"] f p by simp
qed

text \<open>
  Claim C8, as amended. In \<^verbatim>\<open>src/App.tsx\<close>, in every state that a run of lifecycle events
  reaches from an unmounted page without listeners, and in which the controller is mounted
  with a completed activation and both elements are attached, a press starts a tween of the dot to scale 0.8 and one of the indicator to
  scale 0.95, each of duration 0.15, and a release starts tweens of both to scale 1 of the
  same duration.
\<close>

theorem press_release_feedback:
  assumes "listeners w0 = []"
    and "lc_run useEffect_TargetCursor (Unmounted w0) evs = Mounted m"
    and "pending m \<noteq> cleanup_noop"
    and "cursorRef (page m) = Some c" and "dotRef (page m) = Some d"
  shows "gsap_tweens (dispatch \<lparr>etype = mousedown, clientX = x, clientY = y\<rparr> (page m))
           = gsap_tweens (page m) @
             [\<lparr>target = d, vars = [(''scale'', Num (8 / 10))], duration = 15 / 100,
               ease = ease_default\<rparr>,
              \<lparr>target = c, vars = [(''scale'', Num (95 / 100))], duration = 15 / 100,
               ease = ease_default\<rparr>]
       \<and> gsap_tweens (dispatch \<lparr>etype = mouseup, clientX = x, clientY = y\<rparr> (page m))
           = gsap_tweens (page m) @
             [\<lparr>target = d, vars = [(''scale'', Num 1)], duration = 15 / 100,
               ease = ease_default\<rparr>,
              \<lparr>target = c, vars = [(''scale'', Num 1)], duration = 15 / 100,
               ease = ease_default\<rparr>]"
proof -
  have "listeners_inv (Unmounted w0)" using assms(1) by simp
  then have "listeners_inv (Mounted m)"
    using listeners_inv_run [of "Unmounted w0" evs] assms(2) by simp
  then obtain o' k where
    "listeners (page m) = [(mousemove, moveHandler k), (mousedown, mouseDownHandler k),
                           (mouseup, mouseUpHandler k)]"
    using assms(3) by (cases "pending m") simp_all
  then show ?thesis
    using dispatch_press [OF _ assms(4,5)] dispatch_release [OF _ assms(4,5)] by blast
qed

text \<open>
  The hypotheses of C8 hold right after a mount on the example page.
\<close>

theorem press_release_feedback_witness:
  "listeners page0 = []
   \<and> lc_run useEffect_TargetCursor (Unmounted page0) [Mount 2 True]
       = Mounted (mount_cursor useEffect_TargetCursor 2 True page0)
   \<and> pending (mount_cursor useEffect_TargetCursor 2 True page0) \<noteq> cleanup_noop
   \<and> cursorRef (page (mount_cursor useEffect_TargetCursor 2 True page0)) = Some 0
   \<and> dotRef (page (mount_cursor useEffect_TargetCursor 2 True page0)) = Some 1
   \<and> gsap_tweens (dispatch press (page (mount_cursor useEffect_TargetCursor 2 True page0)))
       = [\<lparr>target = 1, vars = [(''scale'', Num (8 / 10))], duration = 15 / 100,
           ease = ease_default\<rparr>,
          \<lparr>target = 0, vars = [(''scale'', Num (95 / 100))], duration = 15 / 100,
           ease = ease_default\<rparr>]
   \<and> gsap_tweens (dispatch release (page (mount_cursor useEffect_TargetCursor 2 True page0)))
       = [\<lparr>target = 1, vars = [(''scale'', Num 1)], duration = 15 / 100,
           ease = ease_default\<rparr>,
          \<lparr>target = 0, vars = [(''scale'', Num 1)], duration = 15 / 100,
           ease = ease_default\<rparr>]"
proof -
  let ?m = "mount_cursor useEffect_TargetCursor 2 True page0"
  have l: "listeners page0 = []" by (simp add: page0_def)
  have r: "lc_run useEffect_TargetCursor (Unmounted page0) [Mount 2 True] = Mounted ?m"
    by (simp add: lc_run_def)
  have p: "pending ?m \<noteq> cleanup_noop" by (simp add: eval_defs)
  have c: "cursorRef (page ?m) = Some 0" by (simp add: eval_defs)
  have d: "dotRef (page ?m) = Some 1" by (simp add: eval_defs)
  have t: "gsap_tweens (page ?m) = []" by (simp add: eval_defs)
  show ?thesis
    using press_release_feedback [OF l r p c d, of 10 20] l r p c d t
    by (simp add: press_def release_def)
qed

text \<open>
  Claim C8 as stated fails on the \<^verbatim>\<open>TargetCursor\<close> of \<^verbatim>\<open>part_000\<close>, which subscribes to
  pointer moves only: with the controller active and both elements attached, a press and
  a release start no tween.
\<close>

theorem part000_press_gives_no_feedback:
  "pending (mount_cursor useEffect_TargetCursor_part000 2 True page0) \<noteq> cleanup_noop
   \<and> cursorRef (page (mount_cursor useEffect_TargetCursor_part000 2 True page0)) = Some 0
   \<and> dotRef (page (mount_cursor useEffect_TargetCursor_part000 2 True page0)) = Some 1
   \<and> gsap_tweens (dispatch press (page (mount_cursor useEffect_TargetCursor_part000 2 True page0)))
       = gsap_tweens (page (mount_cursor useEffect_TargetCursor_part000 2 True page0))
   \<and> gsap_tweens (dispatch release (page (mount_cursor useEffect_TargetCursor_part000 2 True page0)))
       = gsap_tweens (page (mount_cursor useEffect_TargetCursor_part000 2 True page0))"
  by (simp add: eval_defs dispatch_def press_def release_def)

end
